theory Spec2Isabelle
  imports Complex_Main
begin

section \<open>Python values\<close>

text \<open>
  The development embeds \<^verbatim>\<open>src/automation/monitoring/health-monitor.py\<close>, the class
  \<^verbatim>\<open>VLLMHealthMonitor\<close>. Python floats are held as the exact rationals they denote
  (\<^typ>\<open>rat\<close>): comparison is then exact. The rounding of float arithmetic is not
  computed: the doubles the code obtains by dividing and multiplying (the percentages,
  the watts) are taken from the environment, so that every statement holds whatever
  the rounding is; the difference of two clock readings is taken exactly. Python's
  unbounded ints are \<^typ>\<open>int\<close>. Text is \<^typ>\<open>string\<close>, one \<^typ>\<open>char\<close> per ASCII
  character.
\<close>

datatype exn_kind =
  KeyError | TypeError | ValueError | ZeroDivisionError | OSError | AttributeError
  | NoSuchProcess | AccessDenied | NVMLError | RequestException | OtherError

text \<open>A raised exception: its class and \<^verbatim>\<open>str(e)\<close>.\<close>

datatype exn = Exn (exn_kind: exn_kind) (exn_text: string)

text \<open>The values \<^verbatim>\<open>load_config\<close> stores in the configuration dict.\<close>

datatype cfg_value = VBool bool | VInt int | VFloat rat | VStr string

type_synonym config = "string \<rightharpoonup> cfg_value"

section \<open>String operations of the Python library\<close>

text \<open>\<^verbatim>\<open>str.isspace\<close> on ASCII: tab, LF, VT, FF, CR, the separators 0x1C-0x1F and space.\<close>

definition is_space :: "char \<Rightarrow> bool" where
  "is_space c = (c \<in> set [CHR 0x09, CHR 0x0A, CHR 0x0B, CHR 0x0C, CHR 0x0D,
                           CHR 0x1C, CHR 0x1D, CHR 0x1E, CHR 0x1F, CHR 0x20])"

definition is_digit :: "char \<Rightarrow> bool" where
  "is_digit c = (c \<in> set ''0123456789'')"

definition digit_val :: "char \<Rightarrow> nat" where
  "digit_val c = (case map_of (zip ''0123456789'' [0, 1, 2, 3, 4, 5, 6, 7, 8, 9]) c of
                    Some d \<Rightarrow> d | None \<Rightarrow> 0)"

definition digit_char :: "nat \<Rightarrow> char" where
  "digit_char d = ''0123456789'' ! d"

text \<open>\<^verbatim>\<open>s.strip(chars)\<close>: drop the characters satisfying \<open>p\<close> from both ends.\<close>

definition strip_chars :: "(char \<Rightarrow> bool) \<Rightarrow> string \<Rightarrow> string" where
  "strip_chars p s = rev (dropWhile p (rev (dropWhile p s)))"

definition strip :: "string \<Rightarrow> string" where
  "strip s = strip_chars is_space s"

definition lower_char :: "char \<Rightarrow> char" where
  "lower_char c =
     (case map_of (zip ''ABCDEFGHIJKLMNOPQRSTUVWXYZ'' ''abcdefghijklmnopqrstuvwxyz'') c of
        Some l \<Rightarrow> l | None \<Rightarrow> c)"

definition lower :: "string \<Rightarrow> string" where
  "lower s = map lower_char s"

text \<open>\<^verbatim>\<open>s.isdigit()\<close>: non-empty and every character a digit.\<close>

definition isdigit :: "string \<Rightarrow> bool" where
  "isdigit s = (s \<noteq> [] \<and> list_all is_digit s)"

text \<open>\<^verbatim>\<open>s.replace('.', '')\<close>.\<close>

definition remove_dots :: "string \<Rightarrow> string" where
  "remove_dots s = filter (\<lambda>c. c \<noteq> CHR ''.'') s"

definition digits_value :: "string \<Rightarrow> nat" where
  "digits_value s = foldl (\<lambda>a c. 10 * a + digit_val c) 0 s"

text \<open>\<^verbatim>\<open>int(s)\<close> on a string of decimal digits (the only strings the code passes).\<close>

definition py_int :: "string \<Rightarrow> int" where
  "py_int s = int (digits_value s)"

text \<open>
  \<^verbatim>\<open>float(s)\<close> on the strings the code passes to it, which hold digits and dots only:
  the literal is an integer part, an optional dot and a fraction part, with a digit on
  at least one side; anything else raises \<^verbatim>\<open>ValueError\<close>. (Python's \<^verbatim>\<open>float\<close> also
  reads signs, exponents and surrounding blanks, which the caller's guard excludes.)
\<close>

definition py_float :: "string \<Rightarrow> exn + rat" where
  "py_float s =
     (let ip = takeWhile is_digit s; rest = dropWhile is_digit s in
      case rest of
        [] \<Rightarrow> if ip = [] then Inl (Exn ValueError (''could not convert string to float: '' @ s))
              else Inr (of_nat (digits_value ip))
      | c # fp \<Rightarrow>
          if c = CHR ''.'' \<and> list_all is_digit fp \<and> (ip \<noteq> [] \<or> fp \<noteq> [])
          then Inr (of_nat (digits_value ip) + of_nat (digits_value fp) / 10 ^ length fp)
          else Inl (Exn ValueError (''could not convert string to float: '' @ s)))"

text \<open>\<^verbatim>\<open>str(n)\<close> for a natural number and for an int.\<close>

fun str_nat :: "nat \<Rightarrow> string" where
  "str_nat n = (if n < 10 then [digit_char n] else str_nat (n div 10) @ [digit_char (n mod 10)])"

declare str_nat.simps [simp del]

definition str_int :: "int \<Rightarrow> string" where
  "str_int i = (if i < 0 then ''-'' @ str_nat (nat (- i)) else str_nat (nat i))"

text \<open>
  The format specs \<^verbatim>\<open>:.1f\<close> and \<^verbatim>\<open>:.2f\<close>: the value rounded to \<open>n\<close> decimals, ties
  to even, printed with exactly \<open>n\<close> fraction digits.
\<close>

definition round_half_even :: "rat \<Rightarrow> int" where
  "round_half_even x =
     (let f = \<lfloor>x\<rfloor>; d = x - of_int f in
      if d < 1 / 2 then f else if 1 / 2 < d then f + 1 else if even f then f else f + 1)"

definition format_f :: "nat \<Rightarrow> rat \<Rightarrow> string" where
  "format_f n x =
     (let s = nat (round_half_even (\<bar>x\<bar> * 10 ^ n));
          ip = s div 10 ^ n;
          fp = str_nat (s mod 10 ^ n)
      in (if x < 0 then ''-'' else [])
         @ str_nat ip
         @ (if n = 0 then [] else ''.'' @ replicate (n - length fp) CHR ''0'' @ fp))"

section \<open>Configuration: \<^verbatim>\<open>load_config\<close>\<close>

definition default_config :: config where
  "default_config = map_of
     [(''MONITORING_ROOT'', VStr ''/opt/vllm-monitoring''),
      (''API_ENDPOINT'', VStr ''http://localhost:8000''),
      (''API_KEY'', VStr []),
      (''HEALTH_CHECK_INTERVAL'', VInt 30),
      (''PERFORMANCE_CHECK_INTERVAL'', VInt 60),
      (''GPU_CHECK_INTERVAL'', VInt 30),
      (''SYSTEM_CHECK_INTERVAL'', VInt 60),
      (''GPU_MEMORY_THRESHOLD'', VInt 95),
      (''GPU_TEMP_THRESHOLD'', VInt 85),
      (''CPU_THRESHOLD'', VInt 90),
      (''MEMORY_THRESHOLD'', VInt 90),
      (''DISK_THRESHOLD'', VInt 85),
      (''API_RESPONSE_THRESHOLD'', VFloat 5),
      (''GENERATION_TIME_THRESHOLD'', VFloat 30),
      (''LOG_LEVEL'', VStr ''INFO''),
      (''ENABLE_SLACK_ALERTS'', VBool False),
      (''ENABLE_EMAIL_ALERTS'', VBool False)]"

text \<open>The type inference of \<^verbatim>\<open>load_config\<close> (the \<^verbatim>\<open>if/elif\<close> chain), on the stripped value.\<close>

definition convert_value :: "string \<Rightarrow> exn + cfg_value" where
  "convert_value v =
     (if lower v = ''true'' \<or> lower v = ''false'' then Inr (VBool (lower v = ''true''))
      else if isdigit v then Inr (VInt (py_int v))
      else if CHR ''.'' \<in> set v \<and> isdigit (remove_dots v) then
        (case py_float v of Inl e \<Rightarrow> Inl e | Inr x \<Rightarrow> Inr (VFloat x))
      else Inr (VStr v))"

text \<open>
  The test on a stripped line: not empty, not a comment, and holding an \<open>=\<close>; then
  \<^verbatim>\<open>line.split('=', 1)\<close> gives the key and the value, the value stripped of blanks
  and then of double quotes.
\<close>

definition is_setting :: "string \<Rightarrow> bool" where
  "is_setting line = (line \<noteq> [] \<and> take 1 line \<noteq> ''#'' \<and> CHR ''='' \<in> set line)"

definition line_key :: "string \<Rightarrow> string" where
  "line_key line = strip (takeWhile (\<lambda>c. c \<noteq> CHR ''='') line)"

definition line_value :: "string \<Rightarrow> string" where
  "line_value line =
     strip_chars (\<lambda>c. c = CHR 0x22) (strip (tl (dropWhile (\<lambda>c. c \<noteq> CHR ''='') line)))"

text \<open>The loop over the lines of the file; a \<^verbatim>\<open>ValueError\<close> of \<^verbatim>\<open>float\<close> ends it.\<close>

fun load_lines :: "string list \<Rightarrow> config \<Rightarrow> exn + config" where
  "load_lines [] cfg = Inr cfg"
| "load_lines (raw # rest) cfg =
     (if is_setting (strip raw) then
        (case convert_value (line_value (strip raw)) of
           Inl e \<Rightarrow> Inl e
         | Inr v \<Rightarrow> load_lines rest (cfg(line_key (strip raw) \<mapsto> v)))
      else load_lines rest cfg)"

text \<open>
  The file is the list of its lines, \<open>None\<close> when \<^verbatim>\<open>os.path.exists\<close> is false.
\<close>

definition load_config :: "string list option \<Rightarrow> exn + config" where
  "load_config file = (case file of None \<Rightarrow> Inr default_config
                                  | Some ls \<Rightarrow> load_lines ls default_config)"

text \<open>\<^verbatim>\<open>self.config[k]\<close> raises \<^verbatim>\<open>KeyError\<close> on a missing key; \<^verbatim>\<open>self.config.get(k)\<close>
  is the map itself. Truthiness of a \<^verbatim>\<open>get\<close> result: \<^verbatim>\<open>None\<close>, \<^verbatim>\<open>False\<close>, zero and
  the empty string are false.\<close>

definition cfg_item :: "config \<Rightarrow> string \<Rightarrow> exn + cfg_value" where
  "cfg_item cfg k = (case cfg k of None \<Rightarrow> Inl (Exn KeyError k) | Some v \<Rightarrow> Inr v)"

definition truthy :: "cfg_value option \<Rightarrow> bool" where
  "truthy v = (case v of
                 None \<Rightarrow> False
               | Some (VBool b) \<Rightarrow> b
               | Some (VInt n) \<Rightarrow> n \<noteq> 0
               | Some (VFloat x) \<Rightarrow> x \<noteq> 0
               | Some (VStr s) \<Rightarrow> s \<noteq> [])"

text \<open>
  \<^verbatim>\<open>x > t\<close> for a float or int reading \<open>x\<close> and a configuration value \<open>t\<close>:
  \<^verbatim>\<open>True\<close> and \<^verbatim>\<open>False\<close> compare as 1 and 0, a string raises \<^verbatim>\<open>TypeError\<close>.
\<close>

definition number_of :: "cfg_value \<Rightarrow> rat option" where
  "number_of v = (case v of
                    VBool b \<Rightarrow> Some (if b then 1 else 0)
                  | VInt n \<Rightarrow> Some (of_int n)
                  | VFloat x \<Rightarrow> Some x
                  | VStr s \<Rightarrow> None)"

definition exceeds :: "config \<Rightarrow> rat \<Rightarrow> string \<Rightarrow> exn + bool" where
  "exceeds cfg x k =
     (case cfg_item cfg k of
        Inl e \<Rightarrow> Inl e
      | Inr v \<Rightarrow> (case number_of v of
                   None \<Rightarrow> Inl (Exn TypeError ''> not supported between instances'')
                 | Some t \<Rightarrow> Inr (t < x)))"

section \<open>Snapshots and the composite record\<close>

text \<open>
  The dicts the four collectors return, one constructor per shape of dict. An absent
  value (\<^verbatim>\<open>None\<close>) is \<open>None\<close>.
\<close>

record endpoint_check =
  ep_status :: bool
  ep_response_time :: "rat option"

record api_result =
  api_timestamp :: string
  health_endpoint :: endpoint_check
  models_endpoint :: endpoint_check
  generation_test :: endpoint_check
  api_overall_status :: bool

text \<open>\<open>ApiError ts msg\<close> is \<^verbatim>\<open>{'timestamp': ts, 'error': msg, 'overall_status': False}\<close>.\<close>

datatype api_snapshot = ApiResult api_result | ApiError string string

record gpu_info =
  gpu_index :: nat
  gpu_name :: string
  gpu_mem_used :: int
  gpu_mem_total :: int
  gpu_mem_used_percent :: rat
  gpu_temperature :: int
  gpu_util_gpu :: int
  gpu_util_memory :: int
  gpu_power_usage :: "rat option"

text \<open>
  \<open>GpuUnavailable msg\<close> is \<^verbatim>\<open>{'available': False, 'message': msg}\<close>,
  \<open>GpuResult ts n gpus\<close> is \<^verbatim>\<open>{'timestamp': ts, 'available': True, 'gpu_count': n, 'gpus': gpus}\<close>
  and \<open>GpuError msg\<close> is \<^verbatim>\<open>{'available': True, 'error': msg}\<close>.
\<close>

datatype gpu_snapshot = GpuUnavailable string | GpuResult string nat "gpu_info list" | GpuError string

record sys_result =
  sys_timestamp :: string
  cpu_usage_percent :: rat
  cpu_count :: "nat option"
  cpu_load_average :: "(rat \<times> rat \<times> rat) option"
  memory_total :: int
  memory_used :: int
  memory_available :: int
  memory_used_percent :: rat
  disk_total :: int
  disk_used :: int
  disk_free :: int
  disk_used_percent :: rat
  net_bytes_sent :: int
  net_bytes_recv :: int
  net_packets_sent :: int
  net_packets_recv :: int
  sys_processes :: nat

text \<open>\<open>SysError msg\<close> is \<^verbatim>\<open>{'error': msg}\<close>.\<close>

datatype sys_snapshot = SysResult sys_result | SysError string

record proc_entry =
  proc_pid :: nat
  proc_name :: string
  proc_cpu_percent :: "rat option"
  proc_memory_percent :: "rat option"
  proc_status :: "string option"

text \<open>\<open>ProcResult ts n ps\<close> is \<^verbatim>\<open>{'timestamp': ts, 'process_count': n, 'processes': ps}\<close>.\<close>

datatype proc_snapshot = ProcResult string nat "proc_entry list" | ProcError string

text \<open>The dict \<^verbatim>\<open>metrics\<close> of \<^verbatim>\<open>run_health_check\<close>.\<close>

record metrics =
  m_timestamp :: string
  m_api_health :: api_snapshot
  m_gpu_status :: gpu_snapshot
  m_system_resources :: sys_snapshot
  m_vllm_processes :: proc_snapshot

section \<open>The monitor and its effects\<close>

datatype level = INFO | WARNING | ERROR

text \<open>
  What the monitor does to the world, in the order it does it: a call of the logger, the
  POST to the chat webhook (URL, alert title, details), the run of \<^verbatim>\<open>mail\<close>
  (recipients, subject, body). \<open>AlertCall title message\<close> marks an entry into
  \<^verbatim>\<open>send_alert\<close>: it is a history mark with no counterpart in the code, read by no
  function of the model, and it makes the alerts raised by the threshold checks
  countable whether or not they are suppressed.
\<close>

datatype event =
  AlertCall string string
  | Log level string
  | SlackPost cfg_value string string
  | MailRun cfg_value string string

text \<open>
  The state: the attributes of the object that the code reads (\<^verbatim>\<open>config\<close>,
  \<^verbatim>\<open>gpu_count\<close>, \<^verbatim>\<open>alert_counts\<close>), the module flag \<^verbatim>\<open>NVIDIA_AVAILABLE\<close>, the
  metrics files (path to the records appended so far) and the trace of effects.
\<close>

record monitor =
  config :: config
  nvidia_available :: bool
  gpu_count :: nat
  alert_counts :: "string \<rightharpoonup> rat"
  files :: "string \<rightharpoonup> metrics list"
  events :: "event list"

definition emits :: "event list \<Rightarrow> monitor \<Rightarrow> monitor" where
  "emits es m = m\<lparr>events := events m @ es\<rparr>"

section \<open>The alert dispatcher: \<^verbatim>\<open>send_alert\<close>\<close>

text \<open>
  What the world answers during one call of \<^verbatim>\<open>send_alert\<close>: the clock
  (\<^verbatim>\<open>time.time()\<close>), whether the POST and the run of \<^verbatim>\<open>mail\<close> raise, and the text of
  \<^verbatim>\<open>datetime.now()\<close> in the mail body.
\<close>

record alert_io =
  now :: rat
  slack_raises :: "exn option"
  mail_raises :: "exn option"
  now_text :: string

definition alert_key :: "string \<Rightarrow> string \<Rightarrow> string" where
  "alert_key title message = title @ '':'' @ message"

text \<open>The rate limit: the key is known and was stored less than 3600 seconds ago.\<close>

definition suppressed :: "monitor \<Rightarrow> string \<Rightarrow> rat \<Rightarrow> bool" where
  "suppressed m k current_time =
     (case alert_counts m k of None \<Rightarrow> False | Some t \<Rightarrow> current_time - t < 3600)"

text \<open>
  The two channels. Each is tried when its enable flag and its address are both truthy
  in the configuration; an exception of the call is caught and logged.
\<close>

definition slack_events :: "config \<Rightarrow> alert_io \<Rightarrow> string \<Rightarrow> string \<Rightarrow> event list" where
  "slack_events cfg io title message =
     (if truthy (cfg ''ENABLE_SLACK_ALERTS'') \<and> truthy (cfg ''SLACK_WEBHOOK'') then
        (case cfg ''SLACK_WEBHOOK'' of
           None \<Rightarrow> []
         | Some url \<Rightarrow>
             SlackPost url title message
             # (case slack_raises io of
                  None \<Rightarrow> []
                | Some e \<Rightarrow> [Log ERROR (''Failed to send Slack alert: '' @ exn_text e)]))
      else [])"

definition mail_events :: "config \<Rightarrow> alert_io \<Rightarrow> string \<Rightarrow> string \<Rightarrow> event list" where
  "mail_events cfg io title message =
     (if truthy (cfg ''ENABLE_EMAIL_ALERTS'') \<and> truthy (cfg ''EMAIL_RECIPIENTS'') then
        (case cfg ''EMAIL_RECIPIENTS'' of
           None \<Rightarrow> []
         | Some rcpt \<Rightarrow>
             MailRun rcpt (''vLLM Alert: '' @ title)
               (''Alert: '' @ title @ [CHR 0x0A] @ ''Details: '' @ message
                @ [CHR 0x0A] @ ''Time: '' @ now_text io)
             # (case mail_raises io of
                  None \<Rightarrow> []
                | Some e \<Rightarrow> [Log ERROR (''Failed to send email alert: '' @ exn_text e)]))
      else [])"

definition send_alert :: "alert_io \<Rightarrow> string \<Rightarrow> string \<Rightarrow> monitor \<Rightarrow> monitor" where
  "send_alert io title message m0 =
     (let m = emits [AlertCall title message] m0;
          k = alert_key title message;
          current_time = now io
      in if suppressed m k current_time then m
         else emits (Log WARNING (''ALERT: '' @ title @ '' - '' @ message)
                     # slack_events (config m) io title message
                     @ mail_events (config m) io title message)
                (m\<lparr>alert_counts := (alert_counts m)(k \<mapsto> current_time)\<rparr>))"

text \<open>Observers of the trace: what was added between two states, and the channel calls.\<close>

definition new_events :: "monitor \<Rightarrow> monitor \<Rightarrow> event list" where
  "new_events m m' = drop (length (events m)) (events m')"



text \<open>The alerts raised: the arguments of the calls of \<^verbatim>\<open>send_alert\<close>, in order.\<close>

fun alert_calls :: "event list \<Rightarrow> (string \<times> string) list" where
  "alert_calls [] = []"
| "alert_calls (AlertCall title message # es) = (title, message) # alert_calls es"
| "alert_calls (e # es) = alert_calls es"





section \<open>Collectors: state, exceptions and threshold checks\<close>

text \<open>
  A step of a collector changes the monitor and either returns a value or raises; the
  state reached before a \<^verbatim>\<open>raise\<close> is kept (alerts already sent stay sent).
  \<open>then_do\<close> is sequencing, \<open>lift\<close> a call that only returns or raises.
\<close>

type_synonym 'a action = "monitor \<Rightarrow> (exn + 'a) \<times> monitor"

definition then_do :: "'a action \<Rightarrow> ('a \<Rightarrow> 'b action) \<Rightarrow> 'b action" where
  "then_do f g m = (case f m of (Inl e, m') \<Rightarrow> (Inl e, m') | (Inr x, m') \<Rightarrow> g x m')"

definition lift :: "exn + 'a \<Rightarrow> 'a action" where
  "lift r m = (r, m)"

definition pure :: "'a \<Rightarrow> 'a action" where
  "pure x m = (Inr x, m)"

text \<open>
  The statement \<^verbatim>\<open>if x > self.config[k]: self.send_alert(title, message)\<close>.
\<close>

definition check_threshold ::
  "rat \<Rightarrow> string \<Rightarrow> alert_io \<Rightarrow> string \<Rightarrow> string \<Rightarrow> unit action" where
  "check_threshold x k io title message m =
     (case exceeds (config m) x k of
        Inl e \<Rightarrow> (Inl e, m)
      | Inr b \<Rightarrow> (Inr (), if b then send_alert io title message m else m))"

text \<open>
  The expression \<^verbatim>\<open>(used / total) * 100\<close> on two ints: \<^verbatim>\<open>ZeroDivisionError\<close> when the
  total is zero, else the double that the division and the product round to, \<open>fl used
  whole\<close>, as the environment gives it.
\<close>

definition percent :: "(int \<Rightarrow> int \<Rightarrow> rat) \<Rightarrow> int \<Rightarrow> int \<Rightarrow> exn + rat" where
  "percent fl used whole = (if whole = 0 then Inl (Exn ZeroDivisionError ''division by zero'')
                            else Inr (fl used whole))"

text \<open>The exact value of the expression; the double equals it when no rounding occurs
  (as for a ratio of one half).\<close>

definition exact_percent :: "int \<Rightarrow> int \<Rightarrow> rat" where
  "exact_percent used whole = of_int used / of_int whole * 100"

section \<open>The resource probe: \<^verbatim>\<open>check_system_resources\<close>\<close>

text \<open>
  What the host answers during one run of the probe: each call of \<^verbatim>\<open>psutil\<close> and
  \<^verbatim>\<open>os.getloadavg\<close> returns or raises. Memory is (total, used, available, percent),
  disk is (total, used, free), the network counters are (bytes sent, bytes received,
  packets sent, packets received), \<open>pids_r\<close> is \<^verbatim>\<open>len(psutil.pids())\<close>;
  \<open>disk_percent_of\<close> is the double arithmetic of the disk percentage.
\<close>

record sys_env =
  cpu_percent_r :: "exn + rat"
  cpu_count_r :: "exn + nat option"
  virtual_memory_r :: "exn + int \<times> int \<times> int \<times> rat"
  disk_usage_r :: "exn + int \<times> int \<times> int"
  disk_percent_of :: "int \<Rightarrow> int \<Rightarrow> rat"
  net_io_counters_r :: "exn + int \<times> int \<times> int \<times> int"
  pids_r :: "exn + nat"
  getloadavg_r :: "exn + rat \<times> rat \<times> rat"
  sys_now :: string
  cpu_alert_io :: alert_io
  memory_alert_io :: alert_io
  disk_alert_io :: alert_io

text \<open>The inner \<^verbatim>\<open>try\<close> around \<^verbatim>\<open>os.getloadavg()\<close>, which catches
  \<^verbatim>\<open>(OSError, AttributeError)\<close> only.\<close>

definition load_average :: "exn + rat \<times> rat \<times> rat \<Rightarrow> exn + (rat \<times> rat \<times> rat) option" where
  "load_average r =
     (case r of
        Inr l \<Rightarrow> Inr (Some l)
      | Inl e \<Rightarrow> if exn_kind e = OSError \<or> exn_kind e = AttributeError then Inr None else Inl e)"

text \<open>The body of the outer \<^verbatim>\<open>try\<close>, in the order of the source.\<close>

definition system_body :: "sys_env \<Rightarrow> sys_result action" where
  "system_body env =
     then_do (lift (cpu_percent_r env)) (\<lambda>cpu_percent.
     then_do (lift (cpu_count_r env)) (\<lambda>cpu_count.
     then_do (lift (virtual_memory_r env)) (\<lambda>(m_total, m_used, m_available, m_percent).
     then_do (lift (disk_usage_r env)) (\<lambda>(d_total, d_used, d_free).
     then_do (lift (percent (disk_percent_of env) d_used d_total)) (\<lambda>disk_percent.
     then_do (lift (net_io_counters_r env)) (\<lambda>(b_sent, b_recv, p_sent, p_recv).
     then_do (lift (pids_r env)) (\<lambda>process_count.
     then_do (lift (load_average (getloadavg_r env))) (\<lambda>load_avg.
     then_do (check_threshold cpu_percent ''CPU_THRESHOLD'' (cpu_alert_io env)
                ''CPU Usage High'' (''CPU usage: '' @ format_f 1 cpu_percent @ ''%'')) (\<lambda>_.
     then_do (check_threshold m_percent ''MEMORY_THRESHOLD'' (memory_alert_io env)
                ''Memory Usage High'' (''Memory usage: '' @ format_f 1 m_percent @ ''%'')) (\<lambda>_.
     then_do (check_threshold disk_percent ''DISK_THRESHOLD'' (disk_alert_io env)
                ''Disk Usage High'' (''Disk usage: '' @ format_f 1 disk_percent @ ''%'')) (\<lambda>_.
     pure \<lparr>sys_timestamp = sys_now env,
           cpu_usage_percent = cpu_percent, cpu_count = cpu_count, cpu_load_average = load_avg,
           memory_total = m_total, memory_used = m_used, memory_available = m_available,
           memory_used_percent = m_percent,
           disk_total = d_total, disk_used = d_used, disk_free = d_free,
           disk_used_percent = disk_percent,
           net_bytes_sent = b_sent, net_bytes_recv = b_recv,
           net_packets_sent = p_sent, net_packets_recv = p_recv,
           sys_processes = process_count\<rparr>)))))))))))"

definition check_system_resources :: "sys_env \<Rightarrow> monitor \<Rightarrow> sys_snapshot \<times> monitor" where
  "check_system_resources env m =
     (case system_body env m of
        (Inr result, m') \<Rightarrow> (SysResult result, m')
      | (Inl e, m') \<Rightarrow>
          (SysError (exn_text e),
           emits [Log ERROR (''System resource check failed: '' @ exn_text e)] m'))"

section \<open>The GPU probe: \<^verbatim>\<open>setup_nvidia\<close> and \<^verbatim>\<open>check_gpu_status\<close>\<close>

text \<open>
  \<^verbatim>\<open>setup_nvidia\<close>, given what \<^verbatim>\<open>nvmlInit()\<close> followed by \<^verbatim>\<open>nvmlDeviceGetCount()\<close>
  does: return the count or raise.
\<close>

definition setup_nvidia :: "exn + nat \<Rightarrow> monitor \<Rightarrow> monitor" where
  "setup_nvidia init_r m =
     (if nvidia_available m then
        (case init_r of
           Inr n \<Rightarrow> emits [Log INFO (''Initialized NVIDIA monitoring for '' @ str_nat n @ '' GPUs'')]
                      (m\<lparr>gpu_count := n\<rparr>)
         | Inl e \<Rightarrow> emits [Log ERROR (''Failed to initialize NVIDIA monitoring: '' @ exn_text e)]
                      (m\<lparr>gpu_count := 0\<rparr>))
      else emits [Log WARNING ''NVIDIA monitoring not available (pynvml not installed)'']
             (m\<lparr>gpu_count := 0\<rparr>))"

text \<open>
  What one device answers during one pass of the loop: the handle lookup, the name
  (after \<^verbatim>\<open>decode\<close>), the memory info (used, total), the temperature, the utilization
  rates (gpu, memory) and the power in milliwatts, each returning or raising;
  \<open>memory_percent_of\<close> is the double arithmetic of the memory percentage and \<open>watts_of\<close>
  that of \<^verbatim>\<open>milliwatts / 1000.0\<close>.
\<close>

record gpu_dev =
  handle_raises :: "exn option"
  name_r :: "exn + string"
  memory_info_r :: "exn + int \<times> int"
  memory_percent_of :: "int \<Rightarrow> int \<Rightarrow> rat"
  temperature_r :: "exn + int"
  utilization_r :: "exn + int \<times> int"
  power_usage_r :: "exn + int"
  watts_of :: "int \<Rightarrow> rat"
  gpu_memory_alert_io :: alert_io
  gpu_temp_alert_io :: alert_io

record gpu_env =
  devices :: "nat \<Rightarrow> gpu_dev"
  gpu_now :: string

text \<open>The bare \<^verbatim>\<open>except\<close> around the power read: any exception gives \<^verbatim>\<open>None\<close>.\<close>

definition power_watts :: "gpu_dev \<Rightarrow> rat option" where
  "power_watts dev = (case power_usage_r dev of Inl e \<Rightarrow> None | Inr mw \<Rightarrow> Some (watts_of dev mw))"

text \<open>One pass of the loop body for device \<open>i\<close>.\<close>

definition gpu_iteration :: "nat \<Rightarrow> gpu_dev \<Rightarrow> gpu_info action" where
  "gpu_iteration i dev =
     then_do (lift (case handle_raises dev of Some e \<Rightarrow> Inl e | None \<Rightarrow> Inr ())) (\<lambda>_.
     then_do (lift (name_r dev)) (\<lambda>name.
     then_do (lift (memory_info_r dev)) (\<lambda>(used, total).
     then_do (lift (percent (memory_percent_of dev) used total)) (\<lambda>memory_used_percent.
     then_do (lift (temperature_r dev)) (\<lambda>temp.
     then_do (lift (utilization_r dev)) (\<lambda>(u_gpu, u_memory).
     then_do (check_threshold memory_used_percent ''GPU_MEMORY_THRESHOLD'' (gpu_memory_alert_io dev)
                ''GPU Memory High''
                (''GPU '' @ str_nat i @ '' memory usage: '' @ format_f 1 memory_used_percent @ ''%'')) (\<lambda>_.
     then_do (check_threshold (of_int temp) ''GPU_TEMP_THRESHOLD'' (gpu_temp_alert_io dev)
                ''GPU Temperature High''
                (''GPU '' @ str_nat i @ '' temperature: '' @ str_int temp
                 @ [CHR 0xC2, CHR 0xB0] @ ''C'')) (\<lambda>_.
     pure \<lparr>gpu_index = i, gpu_name = name, gpu_mem_used = used, gpu_mem_total = total,
           gpu_mem_used_percent = memory_used_percent, gpu_temperature = temp,
           gpu_util_gpu = u_gpu, gpu_util_memory = u_memory,
           gpu_power_usage = power_watts dev\<rparr>))))))))"

text \<open>The loop \<^verbatim>\<open>for i in range(self.gpu_count)\<close>, appending to \<^verbatim>\<open>gpu_data\<close>.\<close>

fun gpu_loop :: "(nat \<Rightarrow> gpu_dev) \<Rightarrow> nat list \<Rightarrow> gpu_info list \<Rightarrow> gpu_info list action" where
  "gpu_loop devs [] gpu_data m = (Inr gpu_data, m)"
| "gpu_loop devs (i # rest) gpu_data m =
     (case gpu_iteration i (devs i) m of
        (Inl e, m') \<Rightarrow> (Inl e, m')
      | (Inr info, m') \<Rightarrow> gpu_loop devs rest (gpu_data @ [info]) m')"

definition check_gpu_status :: "gpu_env \<Rightarrow> monitor \<Rightarrow> gpu_snapshot \<times> monitor" where
  "check_gpu_status env m =
     (if \<not> nvidia_available m \<or> gpu_count m = 0 then
        (GpuUnavailable ''NVIDIA monitoring not available'', m)
      else
        (case gpu_loop (devices env) [0..<gpu_count m] [] m of
           (Inr gpu_data, m') \<Rightarrow> (GpuResult (gpu_now env) (gpu_count m) gpu_data, m')
         | (Inl e, m') \<Rightarrow>
             (GpuError (exn_text e),
              emits [Log ERROR (''GPU status check failed: '' @ exn_text e)] m')))"

text \<open>The key \<^verbatim>\<open>'available'\<close> of a GPU snapshot.\<close>

fun available :: "gpu_snapshot \<Rightarrow> bool" where
  "available (GpuUnavailable msg) = False"
| "available (GpuResult ts n gpus) = True"
| "available (GpuError msg) = True"

section \<open>The API probe: \<^verbatim>\<open>test_generation\<close> and \<^verbatim>\<open>check_api_health\<close>\<close>

text \<open>
  What the endpoint answers during one run of the probe: each request returns a
  response with a status code or raises (connection error, timeout), and the clock
  difference taken around it.
\<close>

record api_env =
  health_get_r :: "exn + int"
  health_elapsed :: rat
  models_get_r :: "exn + int"
  models_elapsed :: rat
  generation_post_r :: "exn + int"
  generation_elapsed :: rat
  api_now :: string
  response_alert_io :: alert_io
  generation_alert_io :: alert_io

text \<open>\<^verbatim>\<open>test_generation\<close>: the time of the POST when it answers 200, else \<^verbatim>\<open>None\<close>;
  every exception is caught and logged.\<close>

definition generation_request :: "api_env \<Rightarrow> config \<Rightarrow> exn + int" where
  "generation_request env cfg =
     (case cfg_item cfg ''API_ENDPOINT'' of
        Inl e \<Rightarrow> Inl e
      | Inr url \<Rightarrow> (case cfg_item cfg ''API_KEY'' of
                     Inl e \<Rightarrow> Inl e
                   | Inr api_key \<Rightarrow> generation_post_r env))"

definition test_generation :: "api_env \<Rightarrow> monitor \<Rightarrow> rat option \<times> monitor" where
  "test_generation env m =
     (case generation_request env (config m) of
        Inl e \<Rightarrow> (None, emits [Log ERROR (''Generation test failed: '' @ exn_text e)] m)
      | Inr status_code \<Rightarrow>
          if status_code = 200 then (Some (generation_elapsed env), m)
          else (None, emits [Log ERROR (''Generation test failed: '' @ str_int status_code)] m))"

text \<open>The check \<^verbatim>\<open>if generation_time and generation_time > threshold\<close>: \<^verbatim>\<open>None\<close> and
  \<open>0.0\<close> are false, and then the threshold is not read.\<close>

definition generation_threshold :: "api_env \<Rightarrow> rat option \<Rightarrow> unit action" where
  "generation_threshold env generation_time =
     (case generation_time of
        None \<Rightarrow> pure ()
      | Some g \<Rightarrow>
          if g = 0 then pure ()
          else check_threshold g ''GENERATION_TIME_THRESHOLD'' (generation_alert_io env)
                 ''Generation Time High''
                 (''Generation response time: '' @ format_f 2 g @ ''s''))"

definition api_body :: "api_env \<Rightarrow> api_result action" where
  "api_body env =
     then_do (\<lambda>m. lift (cfg_item (config m) ''API_ENDPOINT'') m) (\<lambda>endpoint.
     then_do (lift (health_get_r env)) (\<lambda>health_code.
     then_do (\<lambda>m. lift (cfg_item (config m) ''API_KEY'') m) (\<lambda>api_key.
     then_do (lift (models_get_r env)) (\<lambda>models_code.
     then_do (\<lambda>m. case test_generation env m of (g, m') \<Rightarrow> (Inr g, m')) (\<lambda>generation_time.
     then_do (check_threshold (health_elapsed env) ''API_RESPONSE_THRESHOLD''
                (response_alert_io env) ''API Response Time High''
                (''Health endpoint response time: '' @ format_f 2 (health_elapsed env) @ ''s'')) (\<lambda>_.
     then_do (generation_threshold env generation_time) (\<lambda>_.
     pure \<lparr>api_timestamp = api_now env,
           health_endpoint =
             \<lparr>ep_status = (health_code = 200), ep_response_time = Some (health_elapsed env)\<rparr>,
           models_endpoint =
             \<lparr>ep_status = (models_code = 200), ep_response_time = Some (models_elapsed env)\<rparr>,
           generation_test =
             \<lparr>ep_status = (generation_time \<noteq> None), ep_response_time = generation_time\<rparr>,
           api_overall_status =
             (health_code = 200 \<and> models_code = 200 \<and> generation_time \<noteq> None)\<rparr>)))))))"

definition check_api_health :: "api_env \<Rightarrow> monitor \<Rightarrow> api_snapshot \<times> monitor" where
  "check_api_health env m =
     (case api_body env m of
        (Inr result, m') \<Rightarrow> (ApiResult result, m')
      | (Inl e, m') \<Rightarrow>
          (ApiError (api_now env) (exn_text e),
           emits [Log ERROR (''API health check failed: '' @ exn_text e)] m'))"

text \<open>The key \<^verbatim>\<open>'overall_status'\<close> of an API snapshot.\<close>

fun overall_status :: "api_snapshot \<Rightarrow> bool" where
  "overall_status (ApiResult r) = api_overall_status r"
| "overall_status (ApiError ts msg) = False"

section \<open>The process probe: \<^verbatim>\<open>check_vllm_processes\<close>\<close>

text \<open>
  \<^verbatim>\<open>proc.info\<close> of one process; \<^verbatim>\<open>psutil\<close> puts \<^verbatim>\<open>None\<close> for an attribute it could
  not read. \<^verbatim>\<open>sub in s\<close> on strings is \<open>contains\<close>.
\<close>

record proc_info =
  info_pid :: nat
  info_name :: "string option"
  info_cmdline :: "string list option"
  info_cpu_percent :: "rat option"
  info_memory_percent :: "rat option"
  info_status :: "string option"

fun contains :: "string \<Rightarrow> string \<Rightarrow> bool" where
  "contains sub [] = (sub = [])"
| "contains sub (c # cs) = (take (length sub) (c # cs) = sub \<or> contains sub cs)"

text \<open>
  The condition of the inner \<^verbatim>\<open>if\<close>, with the name as the match found it: \<^verbatim>\<open>.lower()\<close>
  on \<^verbatim>\<open>None\<close> raises \<^verbatim>\<open>AttributeError\<close>, iterating \<^verbatim>\<open>None\<close> raises \<^verbatim>\<open>TypeError\<close>,
  and \<^verbatim>\<open>or\<close> reads the command line only when the name does not match.
\<close>

definition vllm_match :: "proc_info \<Rightarrow> exn + (bool \<times> string)" where
  "vllm_match p =
     (case info_name p of
        None \<Rightarrow> Inl (Exn AttributeError ''NoneType object has no attribute lower'')
      | Some name \<Rightarrow>
          if contains ''vllm'' (lower name) then Inr (True, name)
          else (case info_cmdline p of
                  None \<Rightarrow> Inl (Exn TypeError ''NoneType object is not iterable'')
                | Some args \<Rightarrow> Inr (list_ex (\<lambda>arg. contains ''vllm'' (lower arg)) args, name)))"

text \<open>
  The loop over \<^verbatim>\<open>psutil.process_iter\<close>. An entry is the \<^verbatim>\<open>info\<close> of a process or an
  exception raised while it is examined; \<^verbatim>\<open>NoSuchProcess\<close> and \<^verbatim>\<open>AccessDenied\<close> skip
  the process, any other exception leaves the loop.
\<close>

fun process_loop :: "(exn + proc_info) list \<Rightarrow> proc_entry list \<Rightarrow> exn + proc_entry list" where
  "process_loop [] found = Inr found"
| "process_loop (entry # rest) found =
     (case (case entry of Inl e \<Rightarrow> Inl e | Inr p \<Rightarrow>
              (case vllm_match p of Inl e \<Rightarrow> Inl e | Inr (hit, name) \<Rightarrow> Inr (hit, name, p))) of
        Inl e \<Rightarrow>
          if exn_kind e = NoSuchProcess \<or> exn_kind e = AccessDenied then process_loop rest found
          else Inl e
      | Inr (hit, name, p) \<Rightarrow>
          if hit then
            process_loop rest
              (found @ [\<lparr>proc_pid = info_pid p, proc_name = name,
                         proc_cpu_percent = info_cpu_percent p,
                         proc_memory_percent = info_memory_percent p,
                         proc_status = info_status p\<rparr>])
          else process_loop rest found)"

record proc_env =
  process_iter_r :: "exn + (exn + proc_info) list"
  proc_now :: string

definition check_vllm_processes :: "proc_env \<Rightarrow> monitor \<Rightarrow> proc_snapshot \<times> monitor" where
  "check_vllm_processes env m =
     (case (case process_iter_r env of Inl e \<Rightarrow> Inl e | Inr entries \<Rightarrow> process_loop entries []) of
        Inr found \<Rightarrow> (ProcResult (proc_now env) (length found) found, m)
      | Inl e \<Rightarrow>
          (ProcError (exn_text e),
           emits [Log ERROR (''vLLM process check failed: '' @ exn_text e)] m))"

section \<open>The metrics recorder: \<^verbatim>\<open>save_metrics\<close>\<close>

text \<open>
  What the file system answers: whether \<^verbatim>\<open>mkdir\<close> raises, the date in the file name, and
  whether opening the file and writing the line raise. \<^verbatim>\<open>Path(x)\<close> raises \<^verbatim>\<open>TypeError\<close>
  unless \<open>x\<close> is a string; the path is joined with \<open>/\<close>.
\<close>

record save_env =
  mkdir_raises :: "exn option"
  date_str :: string
  append_raises :: "exn option"

definition metrics_path :: "string \<Rightarrow> string \<Rightarrow> string" where
  "metrics_path dir date = dir @ ''/data/metrics-'' @ date @ ''.jsonl''"

definition append_record :: "string \<Rightarrow> metrics \<Rightarrow> monitor \<Rightarrow> monitor" where
  "append_record path r m =
     m\<lparr>files := (files m)(path \<mapsto> (case files m path of None \<Rightarrow> [] | Some rs \<Rightarrow> rs) @ [r])\<rparr>"

definition save_metrics :: "save_env \<Rightarrow> metrics \<Rightarrow> unit action" where
  "save_metrics env r m =
     (case cfg_item (config m) ''MONITORING_ROOT'' of
        Inl e \<Rightarrow> (Inl e, m)
      | Inr v \<Rightarrow>
          (case v of
             VStr dir \<Rightarrow>
               (case mkdir_raises env of
                  Some e \<Rightarrow> (Inl e, m)
                | None \<Rightarrow>
                    (case append_raises env of
                       None \<Rightarrow> (Inr (), append_record (metrics_path dir (date_str env)) r m)
                     | Some e \<Rightarrow>
                         (Inr (), emits [Log ERROR (''Failed to save metrics: '' @ exn_text e)] m)))
           | _ \<Rightarrow> (Inl (Exn TypeError ''expected str, bytes or os.PathLike object''), m)))"

section \<open>One cycle: \<^verbatim>\<open>run_health_check\<close>\<close>

record cycle_env =
  cycle_now :: string
  api_world :: api_env
  gpu_world :: gpu_env
  sys_world :: sys_env
  proc_world :: proc_env
  save_world :: save_env

text \<open>The four snapshots in the order of the dict literal, and the record built of them.\<close>

definition collect :: "cycle_env \<Rightarrow> monitor \<Rightarrow> metrics \<times> monitor" where
  "collect env m =
     (case check_api_health (api_world env) m of (api, m1) \<Rightarrow>
      case check_gpu_status (gpu_world env) m1 of (gpu, m2) \<Rightarrow>
      case check_system_resources (sys_world env) m2 of (sys, m3) \<Rightarrow>
      case check_vllm_processes (proc_world env) m3 of (procs, m4) \<Rightarrow>
        (\<lparr>m_timestamp = cycle_now env, m_api_health = api, m_gpu_status = gpu,
          m_system_resources = sys, m_vllm_processes = procs\<rparr>, m4))"

definition run_health_check :: "cycle_env \<Rightarrow> metrics action" where
  "run_health_check env m =
     (case collect env (emits [Log INFO ''Starting health check cycle''] m) of (r, m4) \<Rightarrow>
      case save_metrics (save_world env) r m4 of
        (Inl e, m5) \<Rightarrow> (Inl e, m5)
      | (Inr u, m5) \<Rightarrow>
          (Inr r,
           emits [Log INFO (''Health check complete - API: ''
                   @ (if overall_status (m_api_health r) then ''OK'' else ''FAIL'')
                   @ '', GPUs: '' @ (if available (m_gpu_status r) then ''OK'' else ''N/A''))] m5))"

section \<open>Observers for the threshold checks\<close>

text \<open>
  The numeric limit the configuration holds for a key, if it holds one; the alerts raised
  between two states of the monitor; and the relation between a state and a later state
  of the same run (the trace grows, everything a collector only reads is unchanged).
\<close>

definition threshold :: "config \<Rightarrow> string \<Rightarrow> rat option" where
  "threshold cfg k = (case cfg k of None \<Rightarrow> None | Some v \<Rightarrow> number_of v)"

definition raised :: "monitor \<Rightarrow> monitor \<Rightarrow> (string \<times> string) list" where
  "raised m m' = alert_calls (new_events m m')"

definition grows :: "monitor \<Rightarrow> monitor \<Rightarrow> bool" where
  "grows m m' = (config m' = config m \<and> nvidia_available m' = nvidia_available m
                 \<and> gpu_count m' = gpu_count m \<and> files m' = files m
                 \<and> take (length (events m)) (events m') = events m)"

text \<open>
  Between two states the run went on and raised alerts with titles in \<open>S\<close> only; and an
  action that does so from every state. \<open>host_titles\<close> are the titles of the alerts that
  are not about a GPU.
\<close>

definition raises_only :: "string set \<Rightarrow> monitor \<Rightarrow> monitor \<Rightarrow> bool" where
  "raises_only S m m' = (grows m m' \<and> set (map fst (raised m m')) \<subseteq> S)"

definition stays :: "string set \<Rightarrow> 'a action \<Rightarrow> bool" where
  "stays S f = (\<forall>m r m'. f m = (r, m') \<longrightarrow> raises_only S m m')"

definition host_titles :: "string set" where
  "host_titles = {''API Response Time High'', ''Generation Time High'',
                  ''CPU Usage High'', ''Memory Usage High'', ''Disk Usage High''}"

section \<open>Concrete inputs\<close>


definition fresh_monitor :: "config \<Rightarrow> monitor" where
  "fresh_monitor cfg = \<lparr>config = cfg, nvidia_available = False, gpu_count = 0,
     alert_counts = Map.empty, files = Map.empty, events = []\<rparr>"

definition io_at :: "rat \<Rightarrow> alert_io" where
  "io_at t = \<lparr>now = t, slack_raises = None, mail_raises = None, now_text = ''2025-01-01 00:00:00''\<rparr>"

text \<open>A host on which every read succeeds: the given CPU percent, memory at 50 percent,
  the disk at 50 percent; its alerts are sent at the given time.\<close>

definition host :: "rat \<Rightarrow> rat \<Rightarrow> sys_env" where
  "host cpu t = \<lparr>cpu_percent_r = Inr cpu, cpu_count_r = Inr (Some 8),
     virtual_memory_r = Inr (16000, 8000, 8000, 50),
     disk_usage_r = Inr (1000, 500, 500), disk_percent_of = exact_percent,
     net_io_counters_r = Inr (10, 20, 1, 2),
     pids_r = Inr 120,
     getloadavg_r = Inr (1, 1, 1),
     sys_now = ''2025-01-01T00:00:00'',
     cpu_alert_io = io_at t, memory_alert_io = io_at t, disk_alert_io = io_at t\<rparr>"

text \<open>A resource snapshot with its load average replaced (an error dict has none).\<close>

fun with_load_average :: "(rat \<times> rat \<times> rat) option \<Rightarrow> sys_snapshot \<Rightarrow> sys_snapshot" where
  "with_load_average l (SysResult r) = SysResult (r\<lparr>cpu_load_average := l\<rparr>)"
| "with_load_average l (SysError msg) = SysError msg"

text \<open>A device whose reads succeed (memory half used, the given temperature), a monitor
  with \<open>n\<close> GPUs found at start-up, and a host whose second GPU cannot be read.\<close>

definition gpu_device :: "int \<Rightarrow> gpu_dev" where
  "gpu_device temp = \<lparr>handle_raises = None, name_r = Inr ''NVIDIA A100'',
     memory_info_r = Inr (40000, 80000), memory_percent_of = exact_percent,
     temperature_r = Inr temp,
     utilization_r = Inr (10, 20), power_usage_r = Inr 250000, watts_of = (\<lambda>mw. of_int mw / 1000),
     gpu_memory_alert_io = io_at 1000, gpu_temp_alert_io = io_at 1000\<rparr>"

definition gpu_monitor :: "config \<Rightarrow> nat \<Rightarrow> monitor" where
  "gpu_monitor cfg n = (fresh_monitor cfg)\<lparr>nvidia_available := True, gpu_count := n\<rparr>"

definition lost_second_gpu :: gpu_env where
  "lost_second_gpu = \<lparr>devices = (\<lambda>i. if i = 0 then gpu_device 60
       else (gpu_device 60)\<lparr>temperature_r := Inl (Exn NVMLError ''GPU is lost'')\<rparr>),
     gpu_now = ''2025-01-01T00:00:00''\<rparr>"

text \<open>The same host with every power read failing; a GPU snapshot with the power of every
  device absent; and the reads of a device that the loop does not guard.\<close>

definition power_fails :: "exn \<Rightarrow> gpu_env \<Rightarrow> gpu_env" where
  "power_fails e env = env\<lparr>devices := \<lambda>i. (devices env i)\<lparr>power_usage_r := Inl e\<rparr>\<rparr>"

fun without_power :: "gpu_snapshot \<Rightarrow> gpu_snapshot" where
  "without_power (GpuResult ts n gpus) = GpuResult ts n (map (\<lambda>g. g\<lparr>gpu_power_usage := None\<rparr>) gpus)"
| "without_power (GpuUnavailable msg) = GpuUnavailable msg"
| "without_power (GpuError msg) = GpuError msg"

definition read_fails :: "gpu_dev \<Rightarrow> bool" where
  "read_fails dev = (handle_raises dev \<noteq> None \<or> isl (name_r dev) \<or> isl (memory_info_r dev)
                     \<or> isl (temperature_r dev) \<or> isl (utilization_r dev))"

text \<open>An endpoint that refuses every connection, a process table that cannot be read, a
  file system that works, and a cycle in which all four collectors fail.\<close>

definition api_down :: api_env where
  "api_down = \<lparr>health_get_r = Inl (Exn RequestException ''Connection refused''), health_elapsed = 0,
     models_get_r = Inl (Exn RequestException ''Connection refused''), models_elapsed = 0,
     generation_post_r = Inl (Exn RequestException ''Connection refused''), generation_elapsed = 0,
     api_now = ''2025-01-01T00:00:00'',
     response_alert_io = io_at 1000, generation_alert_io = io_at 1000\<rparr>"

definition proc_down :: proc_env where
  "proc_down = \<lparr>process_iter_r = Inl (Exn OSError ''/proc is not mounted''),
     proc_now = ''2025-01-01T00:00:00''\<rparr>"

definition disk_ok :: save_env where
  "disk_ok = \<lparr>mkdir_raises = None, date_str = ''2025-01-01'', append_raises = None\<rparr>"

definition down_cycle :: cycle_env where
  "down_cycle = \<lparr>cycle_now = ''2025-01-01T00:00:00'', api_world = api_down,
     gpu_world = lost_second_gpu,
     sys_world = (host 50 1000)\<lparr>cpu_percent_r := Inl (Exn OSError ''cpu sample failed'')\<rparr>,
     proc_world = proc_down, save_world = disk_ok\<rparr>"

text \<open>A device whose every read but the power read succeeds, with a non-zero memory total
  (the division of the memory percentage is defined); a host of two such devices, the
  power read of the second raising.\<close>

definition readable :: "gpu_dev \<Rightarrow> bool" where
  "readable dev = (\<not> read_fails dev
                   \<and> (case memory_info_r dev of Inl e \<Rightarrow> False | Inr (used, whole) \<Rightarrow> whole \<noteq> 0))"

definition unpowered_second_gpu :: gpu_env where
  "unpowered_second_gpu = \<lparr>devices = (\<lambda>i. if i = 0 then gpu_device 60
       else (gpu_device 60)\<lparr>power_usage_r := Inl (Exn NVMLError ''Not Supported'')\<rparr>),
     gpu_now = ''2025-01-01T00:00:00''\<rparr>"

(*PROPERTIES*)
section \<open>Properties of the alert dispatcher\<close>








lemma config_emits [simp]: "config (emits es m) = config m" by (simp add: emits_def)
lemma alert_counts_emits [simp]: "alert_counts (emits es m) = alert_counts m" by (simp add: emits_def)
lemma events_emits [simp]: "events (emits es m) = events m @ es" by (simp add: emits_def)
lemma suppressed_emits [simp]: "suppressed (emits es m) k t = suppressed m k t" by (simp add: suppressed_def)

lemma config_send_alert [simp]: "config (send_alert io t msg m) = config m"
  by (simp add: send_alert_def Let_def)








section \<open>The trace of a collector\<close>

lemma grows_refl [simp]: "grows m m"
  by (simp add: grows_def)

lemma grows_trans: "grows m m' \<Longrightarrow> grows m' m'' \<Longrightarrow> grows m m''"
  unfolding grows_def
  by (metis append_eq_conv_conj append_take_drop_id append.assoc)

lemma grows_emits [simp]: "grows m (emits es m)"
  by (simp add: grows_def emits_def)

lemma grows_send_alert [simp]: "grows m (send_alert io t msg m)"
  by (simp add: grows_def send_alert_def Let_def emits_def)

lemma alert_calls_append [simp]: "alert_calls (xs @ ys) = alert_calls xs @ alert_calls ys"
  by (induction xs rule: alert_calls.induct) simp_all

lemma raised_refl [simp]: "raised m m = []"
  by (simp add: raised_def new_events_def)

lemma raised_trans: "grows m m' \<Longrightarrow> grows m' m'' \<Longrightarrow> raised m m'' = raised m m' @ raised m' m''"
proof -
  assume a: "grows m m'" and b: "grows m' m''"
  from a obtain xs where xs: "events m' = events m @ xs"
    unfolding grows_def by (metis append_take_drop_id)
  from b obtain ys where ys: "events m'' = events m' @ ys"
    unfolding grows_def by (metis append_take_drop_id)
  show ?thesis by (simp add: raised_def new_events_def xs ys)
qed

lemma raised_emits [simp]: "raised m (emits es m) = alert_calls es"
  by (simp add: raised_def new_events_def emits_def)

lemma alert_calls_slack [simp]: "alert_calls (slack_events cfg io t msg) = []"
  by (auto simp: slack_events_def split: option.splits)

lemma alert_calls_mail [simp]: "alert_calls (mail_events cfg io t msg) = []"
  by (auto simp: mail_events_def split: option.splits)

lemma raised_send_alert [simp]: "raised m (send_alert io t msg m) = [(t, msg)]"
  by (simp add: raised_def new_events_def send_alert_def Let_def emits_def)

lemma exceeds_Inr: "exceeds cfg x k = Inr b \<longleftrightarrow> (\<exists>T. threshold cfg k = Some T \<and> b = (T < x))"
  by (auto simp: exceeds_def threshold_def cfg_item_def split: option.splits)

lemma then_do_Inr:
  "then_do f g m = (Inr y, m'') \<Longrightarrow> \<exists>x m'. f m = (Inr x, m') \<and> g x m' = (Inr y, m'')"
  by (auto simp: then_do_def split: prod.splits sum.splits)

lemma lift_Inr: "lift r m = (Inr x, m') \<Longrightarrow> r = Inr x \<and> m' = m"
  by (simp add: lift_def)

lemma pure_Inr: "pure x m = (Inr y, m') \<Longrightarrow> y = x \<and> m' = m"
  by (simp add: pure_def)

lemma check_threshold_grows: "check_threshold x k io t msg m = (r, m') \<Longrightarrow> grows m m'"
  by (auto simp: check_threshold_def split: sum.splits if_splits)

lemma check_threshold_Inr:
  "check_threshold x k io t msg m = (Inr u, m') \<Longrightarrow>
     \<exists>T. threshold (config m) k = Some T \<and> raised m m' = (if T < x then [(t, msg)] else [])"
  by (auto simp: check_threshold_def exceeds_Inr split: sum.splits if_splits)

lemma check_threshold_Inl: "check_threshold x k io t msg m = (Inl e, m') \<Longrightarrow> m' = m"
  by (auto simp: check_threshold_def split: sum.splits)


lemma check_system_resources_SysResult:
  "check_system_resources env m = (SysResult r, m') \<longleftrightarrow> system_body env m = (Inr r, m')"
  by (auto simp: check_system_resources_def split: prod.splits sum.splits)

lemma system_body_Inr:
  assumes "system_body env m = (Inr r, m')"
  shows "\<exists>m1 m2.
      check_threshold (cpu_usage_percent r) ''CPU_THRESHOLD'' (cpu_alert_io env)
        ''CPU Usage High'' (''CPU usage: '' @ format_f 1 (cpu_usage_percent r) @ ''%'') m = (Inr (), m1)
    \<and> check_threshold (memory_used_percent r) ''MEMORY_THRESHOLD'' (memory_alert_io env)
        ''Memory Usage High'' (''Memory usage: '' @ format_f 1 (memory_used_percent r) @ ''%'') m1 = (Inr (), m2)
    \<and> check_threshold (disk_used_percent r) ''DISK_THRESHOLD'' (disk_alert_io env)
        ''Disk Usage High'' (''Disk usage: '' @ format_f 1 (disk_used_percent r) @ ''%'') m2 = (Inr (), m')"
  using assms unfolding system_body_def
  by (auto dest!: then_do_Inr lift_Inr pure_Inr split: prod.splits)

section \<open>The suppression identity\<close>



lemma exceeds_threshold: "threshold cfg k = Some T \<Longrightarrow> exceeds cfg x k = Inr (T < x)"
  by (auto simp: exceeds_def threshold_def cfg_item_def split: option.splits)

lemma check_threshold_numeric:
  "threshold (config m) k = Some T \<Longrightarrow>
   check_threshold x k io t msg m = (Inr (), if T < x then send_alert io t msg m else m)"
  by (simp add: check_threshold_def exceeds_threshold)







section \<open>Failures in the resource probe\<close>

lemma system_body_load_average:
  assumes "exn_kind e = OSError \<or> exn_kind e = AttributeError"
  shows "system_body (env\<lparr>getloadavg_r := Inl e\<rparr>) m =
     (case system_body (env\<lparr>getloadavg_r := Inr l\<rparr>) m of
        (Inr r, m') \<Rightarrow> (Inr (r\<lparr>cpu_load_average := None\<rparr>), m')
      | (Inl x, m') \<Rightarrow> (Inl x, m'))"
  using assms
  by (auto simp: system_body_def then_do_def lift_def pure_def load_average_def
           split: sum.splits prod.splits)

lemma system_body_read_fails:
  assumes "cpu_percent_r env = Inl e \<or> cpu_count_r env = Inl e \<or> virtual_memory_r env = Inl e
         \<or> disk_usage_r env = Inl e \<or> net_io_counters_r env = Inl e \<or> pids_r env = Inl e"
  shows "\<exists>x. system_body env m = (Inl x, m)"
  using assms
  by (auto simp: system_body_def then_do_def lift_def split: sum.splits prod.splits)

text \<open>
  C6 (as amended). In the resource probe only the load average degrades to an absent
  field: when \<^verbatim>\<open>os.getloadavg\<close> raises \<^verbatim>\<open>OSError\<close> or \<^verbatim>\<open>AttributeError\<close>, the probe
  returns what it returns when the call succeeds, with the load average absent, and
  leaves the monitor in the same state. When the read of the CPU percent, the core
  count, the memory, the disk, the network counters or the process list raises, the
  whole snapshot is the error dict and no alert is raised.
\<close>

theorem resource_probe_failure:
  "(exn_kind e = OSError \<or> exn_kind e = AttributeError \<longrightarrow>
      check_system_resources (env\<lparr>getloadavg_r := Inl e\<rparr>) m =
        (with_load_average None (fst (check_system_resources (env\<lparr>getloadavg_r := Inr l\<rparr>) m)),
         snd (check_system_resources (env\<lparr>getloadavg_r := Inr l\<rparr>) m)))
   \<and> (cpu_percent_r env = Inl e \<or> cpu_count_r env = Inl e \<or> virtual_memory_r env = Inl e
        \<or> disk_usage_r env = Inl e \<or> net_io_counters_r env = Inl e \<or> pids_r env = Inl e \<longrightarrow>
      (\<exists>msg. fst (check_system_resources env m) = SysError msg)
      \<and> raised m (snd (check_system_resources env m)) = [])"
proof (intro conjI impI)
  assume k: "exn_kind e = OSError \<or> exn_kind e = AttributeError"
  show "check_system_resources (env\<lparr>getloadavg_r := Inl e\<rparr>) m =
        (with_load_average None (fst (check_system_resources (env\<lparr>getloadavg_r := Inr l\<rparr>) m)),
         snd (check_system_resources (env\<lparr>getloadavg_r := Inr l\<rparr>) m))"
    by (simp add: check_system_resources_def system_body_load_average[OF k, of env m l]
          split: prod.splits sum.splits)
next
  assume r: "cpu_percent_r env = Inl e \<or> cpu_count_r env = Inl e \<or> virtual_memory_r env = Inl e
        \<or> disk_usage_r env = Inl e \<or> net_io_counters_r env = Inl e \<or> pids_r env = Inl e"
  from system_body_read_fails[OF r, of m] obtain x where x: "system_body env m = (Inl x, m)" ..
  show "\<exists>msg. fst (check_system_resources env m) = SysError msg"
    by (simp add: check_system_resources_def x)
  show "raised m (snd (check_system_resources env m)) = []"
    by (simp add: check_system_resources_def x)
qed

text \<open>
  C6 as stated fails: when only the CPU sample raises, the snapshot is the error dict,
  which holds none of the other figures.
\<close>

theorem resource_probe_counterexample:
  "fst (check_system_resources ((host 50 1000)\<lparr>cpu_percent_r := Inl (Exn OSError ''cpu sample failed'')\<rparr>)
         (fresh_monitor default_config)) = SysError ''cpu sample failed''"
  by (simp add: check_system_resources_def system_body_def then_do_def lift_def host_def)

theorem resource_probe_failure_witness:
  "exn_kind (Exn OSError ''getloadavg unavailable'') = OSError
   \<and> check_system_resources ((host 50 1000)\<lparr>getloadavg_r := Inl (Exn OSError ''getloadavg unavailable'')\<rparr>)
         (fresh_monitor default_config)
       = (with_load_average None (fst (check_system_resources (host 50 1000) (fresh_monitor default_config))),
          snd (check_system_resources (host 50 1000) (fresh_monitor default_config)))
   \<and> cpu_percent_r ((host 50 1000)\<lparr>cpu_percent_r := Inl (Exn OSError ''cpu sample failed'')\<rparr>)
       = Inl (Exn OSError ''cpu sample failed'')
   \<and> (\<exists>msg. fst (check_system_resources ((host 50 1000)\<lparr>cpu_percent_r := Inl (Exn OSError ''cpu sample failed'')\<rparr>)
         (fresh_monitor default_config)) = SysError msg)
   \<and> raised (fresh_monitor default_config)
        (snd (check_system_resources ((host 50 1000)\<lparr>cpu_percent_r := Inl (Exn OSError ''cpu sample failed'')\<rparr>)
           (fresh_monitor default_config))) = []"
proof -
  have same: "(host 50 1000)\<lparr>getloadavg_r := Inr (1, 1, 1)\<rparr> = host 50 1000"
    by (simp add: host_def)
  show ?thesis
    using resource_probe_failure[of "Exn OSError ''getloadavg unavailable''" "host 50 1000"
            "fresh_monitor default_config" "(1, 1, 1)"]
          resource_probe_failure[of "Exn OSError ''cpu sample failed''"
            "(host 50 1000)\<lparr>cpu_percent_r := Inl (Exn OSError ''cpu sample failed'')\<rparr>"
            "fresh_monitor default_config"]
    by (simp add: same)
qed

section \<open>Failures in the GPU probe\<close>

lemma gpu_iteration_read_fails:
  "read_fails dev \<Longrightarrow> \<exists>e. gpu_iteration i dev m = (Inl e, m)"
  by (auto simp: read_fails_def gpu_iteration_def then_do_def lift_def isl_def
           split: sum.splits prod.splits option.splits)

lemma gpu_loop_read_fails:
  "i \<in> set idx \<Longrightarrow> read_fails (devs i) \<Longrightarrow> \<exists>e m'. gpu_loop devs idx acc m = (Inl e, m')"
proof (induction idx arbitrary: acc m)
  case Nil
  then show ?case by simp
next
  case (Cons j rest)
  show ?case
  proof (cases "gpu_iteration j (devs j) m")
    case (Pair r m1)
    show ?thesis
    proof (cases r)
      case (Inl e)
      with Pair show ?thesis by simp
    next
      case (Inr info)
      with Pair gpu_iteration_read_fails[of "devs j" j m] have "\<not> read_fails (devs j)" by auto
      with Cons.prems have "i \<in> set rest" by auto
      from Cons.IH[OF this Cons.prems(2)] Pair Inr show ?thesis by simp
    qed
  qed
qed

lemma gpu_iteration_power:
  "gpu_iteration i (dev\<lparr>power_usage_r := Inl e\<rparr>) m =
     (case gpu_iteration i dev m of
        (Inr g, m') \<Rightarrow> (Inr (g\<lparr>gpu_power_usage := None\<rparr>), m')
      | (Inl x, m') \<Rightarrow> (Inl x, m'))"
  by (auto simp: gpu_iteration_def then_do_def lift_def pure_def power_watts_def
           split: sum.splits prod.splits option.splits)

lemma gpu_loop_power:
  "gpu_loop (\<lambda>i. (devs i)\<lparr>power_usage_r := Inl e\<rparr>) idx (map (\<lambda>g. g\<lparr>gpu_power_usage := None\<rparr>) acc) m =
     (case gpu_loop devs idx acc m of
        (Inr gpus, m') \<Rightarrow> (Inr (map (\<lambda>g. g\<lparr>gpu_power_usage := None\<rparr>) gpus), m')
      | (Inl x, m') \<Rightarrow> (Inl x, m'))"
proof (induction idx arbitrary: acc m)
  case Nil
  then show ?case by simp
next
  case (Cons j rest)
  show ?case
    using Cons.IH[of "acc @ [x]" for x]
    by (auto simp: gpu_iteration_power split: sum.splits prod.splits)
qed

lemma check_threshold_numeric_ex:
  "threshold (config m) k \<noteq> None \<Longrightarrow>
   \<exists>m'. check_threshold x k io t msg m = (Inr (), m') \<and> config m' = config m"
  by (auto simp: check_threshold_numeric)

lemma gpu_iteration_readable:
  assumes r: "readable dev"
    and tm: "threshold (config m) ''GPU_MEMORY_THRESHOLD'' \<noteq> None"
    and tt: "threshold (config m) ''GPU_TEMP_THRESHOLD'' \<noteq> None"
  shows "\<exists>info m'. gpu_iteration i dev m = (Inr info, m') \<and> config m' = config m
          \<and> gpu_index info = i \<and> gpu_power_usage info = power_watts dev
          \<and> temperature_r dev = Inr (gpu_temperature info)"
proof -
  from r have nf: "handle_raises dev = None" "\<not> isl (name_r dev)" "\<not> isl (memory_info_r dev)"
      "\<not> isl (temperature_r dev)" "\<not> isl (utilization_r dev)"
    by (simp_all add: readable_def read_fails_def)
  from nf obtain name where n: "name_r dev = Inr name" by (cases "name_r dev") auto
  from nf obtain used whole where mi: "memory_info_r dev = Inr (used, whole)"
    by (cases "memory_info_r dev") auto
  from r mi have w: "whole \<noteq> 0" by (simp add: readable_def)
  from nf obtain temp where te: "temperature_r dev = Inr temp" by (cases "temperature_r dev") auto
  from nf obtain ug um where ut: "utilization_r dev = Inr (ug, um)"
    by (cases "utilization_r dev") auto
  note reads = nf(1) n mi w te ut
  define p where "p = memory_percent_of dev used whole"
  from check_threshold_numeric_ex[OF tm]
  obtain m1 where c1: "check_threshold p ''GPU_MEMORY_THRESHOLD'' (gpu_memory_alert_io dev)
        ''GPU Memory High'' (''GPU '' @ str_nat i @ '' memory usage: '' @ format_f 1 p @ ''%'') m = (Inr (), m1)"
    and k1: "config m1 = config m" by blast
  from tt k1 have tt1: "threshold (config m1) ''GPU_TEMP_THRESHOLD'' \<noteq> None" by simp
  from check_threshold_numeric_ex[OF tt1]
  obtain m2 where c2: "check_threshold (of_int temp) ''GPU_TEMP_THRESHOLD'' (gpu_temp_alert_io dev)
        ''GPU Temperature High'' (''GPU '' @ str_nat i @ '' temperature: '' @ str_int temp
                 @ [CHR 0xC2, CHR 0xB0] @ ''C'') m1 = (Inr (), m2)"
    and k2: "config m2 = config m1" by blast
  have "gpu_iteration i dev m =
     (Inr \<lparr>gpu_index = i, gpu_name = name, gpu_mem_used = used, gpu_mem_total = whole,
           gpu_mem_used_percent = p, gpu_temperature = temp,
           gpu_util_gpu = ug, gpu_util_memory = um,
           gpu_power_usage = power_watts dev\<rparr>, m2)"
    using reads c1 c2
    by (simp add: gpu_iteration_def then_do_def lift_def pure_def percent_def p_def)
  with k1 k2 reads show ?thesis by simp
qed

lemma gpu_loop_readable:
  assumes "list_all (\<lambda>i. readable (devs i)) idx"
    and "threshold (config m) ''GPU_MEMORY_THRESHOLD'' \<noteq> None"
    and "threshold (config m) ''GPU_TEMP_THRESHOLD'' \<noteq> None"
  shows "\<exists>gpus m'. gpu_loop devs idx acc m = (Inr (acc @ gpus), m')
          \<and> map gpu_index gpus = idx
          \<and> map gpu_power_usage gpus = map (\<lambda>i. power_watts (devs i)) idx
          \<and> map (\<lambda>i. temperature_r (devs i)) idx = map (\<lambda>g. Inr (gpu_temperature g)) gpus"
  using assms
proof (induction idx arbitrary: acc m)
  case Nil
  then show ?case by simp
next
  case (Cons j rest)
  from Cons.prems have rj: "readable (devs j)" and rr: "list_all (\<lambda>i. readable (devs i)) rest"
    by simp_all
  from gpu_iteration_readable[OF rj Cons.prems(2) Cons.prems(3), of j]
  obtain info m1 where it: "gpu_iteration j (devs j) m = (Inr info, m1)"
    and k: "config m1 = config m" and f: "gpu_index info = j"
      "gpu_power_usage info = power_watts (devs j)" "temperature_r (devs j) = Inr (gpu_temperature info)"
    by blast
  from Cons.prems k have t1: "threshold (config m1) ''GPU_MEMORY_THRESHOLD'' \<noteq> None"
      "threshold (config m1) ''GPU_TEMP_THRESHOLD'' \<noteq> None" by simp_all
  from Cons.IH[OF rr t1, of "acc @ [info]"]
  obtain gpus m' where l: "gpu_loop devs rest (acc @ [info]) m1 = (Inr ((acc @ [info]) @ gpus), m')"
    and g: "map gpu_index gpus = rest"
      "map gpu_power_usage gpus = map (\<lambda>i. power_watts (devs i)) rest"
      "map (\<lambda>i. temperature_r (devs i)) rest = map (\<lambda>g. Inr (gpu_temperature g)) gpus"
    by blast
  have "gpu_loop devs (j # rest) acc m = (Inr (acc @ (info # gpus)), m')"
    using it l by simp
  with f g show ?case by auto
qed

text \<open>
  C5 (as amended). With GPU telemetry available, a failing read of the handle, the name,
  the memory, the temperature or the utilization of any one device makes the whole GPU
  snapshot the error dict: no device is reported. Only a failure of the power read is
  isolated: when every other read of every device succeeds and the two GPU thresholds are
  numbers, every device is reported, in index order, and the power of a device is absent
  exactly when its power read failed; a power read failing on every device changes
  nothing else of the snapshot or of the monitor.
\<close>

theorem gpu_probe_failure:
  "(nvidia_available m \<and> i < gpu_count m \<and> read_fails (devices env i) \<longrightarrow>
      (\<exists>msg. fst (check_gpu_status env m) = GpuError msg))
   \<and> (nvidia_available m \<and> 0 < gpu_count m
        \<and> list_all (\<lambda>i. readable (devices env i)) [0..<gpu_count m]
        \<and> threshold (config m) ''GPU_MEMORY_THRESHOLD'' \<noteq> None
        \<and> threshold (config m) ''GPU_TEMP_THRESHOLD'' \<noteq> None \<longrightarrow>
      (\<exists>gpus. fst (check_gpu_status env m) = GpuResult (gpu_now env) (gpu_count m) gpus
         \<and> map gpu_index gpus = [0..<gpu_count m]
         \<and> map gpu_power_usage gpus = map (\<lambda>i. power_watts (devices env i)) [0..<gpu_count m]
         \<and> map (\<lambda>i. temperature_r (devices env i)) [0..<gpu_count m]
             = map (\<lambda>g. Inr (gpu_temperature g)) gpus))
   \<and> (isl (power_usage_r dev) \<longrightarrow> power_watts dev = None)
   \<and> (\<not> isl (power_usage_r dev) \<longrightarrow> power_watts dev \<noteq> None)
   \<and> check_gpu_status (power_fails e env) m =
       (without_power (fst (check_gpu_status env m)), snd (check_gpu_status env m))"
proof (intro conjI impI)
  assume a: "nvidia_available m \<and> i < gpu_count m \<and> read_fails (devices env i)"
  then have "i \<in> set [0..<gpu_count m]" by simp
  from gpu_loop_read_fails[OF this, of "devices env" "[]" m] a
  obtain x m' where "gpu_loop (devices env) [0..<gpu_count m] [] m = (Inl x, m')" by blast
  with a show "\<exists>msg. fst (check_gpu_status env m) = GpuError msg"
    by (auto simp: check_gpu_status_def)
next
  assume a: "nvidia_available m \<and> 0 < gpu_count m
        \<and> list_all (\<lambda>i. readable (devices env i)) [0..<gpu_count m]
        \<and> threshold (config m) ''GPU_MEMORY_THRESHOLD'' \<noteq> None
        \<and> threshold (config m) ''GPU_TEMP_THRESHOLD'' \<noteq> None"
  from gpu_loop_readable[of "devices env" "[0..<gpu_count m]" m "[]"] a
  obtain gpus m' where l: "gpu_loop (devices env) [0..<gpu_count m] [] m = (Inr gpus, m')"
    and g: "map gpu_index gpus = [0..<gpu_count m]"
      "map gpu_power_usage gpus = map (\<lambda>i. power_watts (devices env i)) [0..<gpu_count m]"
      "map (\<lambda>i. temperature_r (devices env i)) [0..<gpu_count m]
         = map (\<lambda>g. Inr (gpu_temperature g)) gpus"
    by auto
  from a l have "fst (check_gpu_status env m) = GpuResult (gpu_now env) (gpu_count m) gpus"
    by (simp add: check_gpu_status_def)
  with g show "\<exists>gpus. fst (check_gpu_status env m) = GpuResult (gpu_now env) (gpu_count m) gpus
         \<and> map gpu_index gpus = [0..<gpu_count m]
         \<and> map gpu_power_usage gpus = map (\<lambda>i. power_watts (devices env i)) [0..<gpu_count m]
         \<and> map (\<lambda>i. temperature_r (devices env i)) [0..<gpu_count m]
             = map (\<lambda>g. Inr (gpu_temperature g)) gpus"
    by blast
next
  assume "isl (power_usage_r dev)"
  then show "power_watts dev = None"
    by (cases "power_usage_r dev") (simp_all add: power_watts_def)
next
  assume "\<not> isl (power_usage_r dev)"
  then show "power_watts dev \<noteq> None"
    by (cases "power_usage_r dev") (simp_all add: power_watts_def)
next
  show "check_gpu_status (power_fails e env) m =
       (without_power (fst (check_gpu_status env m)), snd (check_gpu_status env m))"
    using gpu_loop_power[where devs = "devices env" and e = e and idx = "[0..<gpu_count m]" and acc = "[]" and m = m]
    by (auto simp: check_gpu_status_def power_fails_def split: sum.splits prod.splits)
qed

text \<open>
  C5 as stated fails: two GPUs, all reads of GPU 0 succeed, the temperature read of
  GPU 1 raises; the snapshot is the error dict and does not report GPU 0.
\<close>

theorem gpu_probe_counterexample:
  "fst (check_gpu_status lost_second_gpu (gpu_monitor default_config 2)) = GpuError ''GPU is lost''"
  by code_simp

theorem gpu_probe_failure_witness:
  "nvidia_available (gpu_monitor default_config 2) \<and> 1 < gpu_count (gpu_monitor default_config 2)
   \<and> read_fails (devices lost_second_gpu 1)
   \<and> (\<exists>msg. fst (check_gpu_status lost_second_gpu (gpu_monitor default_config 2)) = GpuError msg)
   \<and> list_all (\<lambda>i. readable (devices unpowered_second_gpu i)) [0..<gpu_count (gpu_monitor default_config 2)]
   \<and> threshold (config (gpu_monitor default_config 2)) ''GPU_MEMORY_THRESHOLD'' \<noteq> None
   \<and> threshold (config (gpu_monitor default_config 2)) ''GPU_TEMP_THRESHOLD'' \<noteq> None
   \<and> isl (power_usage_r (devices unpowered_second_gpu 1))
   \<and> \<not> isl (power_usage_r (devices unpowered_second_gpu 0))
   \<and> (\<exists>gpus. fst (check_gpu_status unpowered_second_gpu (gpu_monitor default_config 2))
                = GpuResult ''2025-01-01T00:00:00'' 2 gpus
         \<and> map gpu_index gpus = [0, 1]
         \<and> map gpu_power_usage gpus = [Some 250, None])"
proof -
  have u: "[0..<2::nat] = [0, 1]" by (simp add: upt_rec)
  have m: "nvidia_available (gpu_monitor default_config 2)" "gpu_count (gpu_monitor default_config 2) = 2"
      "config (gpu_monitor default_config 2) = default_config"
    by (simp_all add: gpu_monitor_def fresh_monitor_def)
  have rf: "read_fails (devices lost_second_gpu 1)"
    by (simp add: lost_second_gpu_def read_fails_def gpu_device_def)
  have rd: "list_all (\<lambda>i. readable (devices unpowered_second_gpu i)) [0, 1]"
    by (simp add: unpowered_second_gpu_def readable_def read_fails_def gpu_device_def)
  have th: "threshold default_config ''GPU_MEMORY_THRESHOLD'' \<noteq> None"
      "threshold default_config ''GPU_TEMP_THRESHOLD'' \<noteq> None"
    by (simp_all add: threshold_def default_config_def number_of_def)
  have pw: "isl (power_usage_r (devices unpowered_second_gpu 1))"
      "\<not> isl (power_usage_r (devices unpowered_second_gpu 0))"
      "power_watts (devices unpowered_second_gpu 0) = Some 250"
      "power_watts (devices unpowered_second_gpu 1) = None"
    by (simp_all add: unpowered_second_gpu_def gpu_device_def power_watts_def)
  note a = gpu_probe_failure[where m = "gpu_monitor default_config 2" and i = 1
             and env = lost_second_gpu]
  note b = gpu_probe_failure[where m = "gpu_monitor default_config 2"
             and env = unpowered_second_gpu]
  from a m rf have 1: "\<exists>msg. fst (check_gpu_status lost_second_gpu (gpu_monitor default_config 2)) = GpuError msg"
    by simp
  have pre: "nvidia_available (gpu_monitor default_config 2) \<and> 0 < gpu_count (gpu_monitor default_config 2)
       \<and> list_all (\<lambda>i. readable (devices unpowered_second_gpu i)) [0..<gpu_count (gpu_monitor default_config 2)]
       \<and> threshold (config (gpu_monitor default_config 2)) ''GPU_MEMORY_THRESHOLD'' \<noteq> None
       \<and> threshold (config (gpu_monitor default_config 2)) ''GPU_TEMP_THRESHOLD'' \<noteq> None"
    using m rd th u by simp
  from b[THEN conjunct2, THEN conjunct1, rule_format, OF pre]
  obtain gpus where g: "fst (check_gpu_status unpowered_second_gpu (gpu_monitor default_config 2))
        = GpuResult (gpu_now unpowered_second_gpu) (gpu_count (gpu_monitor default_config 2)) gpus"
      "map gpu_index gpus = [0..<gpu_count (gpu_monitor default_config 2)]"
      "map gpu_power_usage gpus
        = map (\<lambda>i. power_watts (devices unpowered_second_gpu i)) [0..<gpu_count (gpu_monitor default_config 2)]"
    by blast
  have n: "gpu_now unpowered_second_gpu = ''2025-01-01T00:00:00''"
    by (simp add: unpowered_second_gpu_def)
  have 3: "\<exists>gpus. fst (check_gpu_status unpowered_second_gpu (gpu_monitor default_config 2))
                = GpuResult ''2025-01-01T00:00:00'' 2 gpus
         \<and> map gpu_index gpus = [0, 1]
         \<and> map gpu_power_usage gpus = [Some 250, None]"
    using g m u pw n by (intro exI[of _ gpus]) simp
  show ?thesis using m rf rd th pw 1 3 u by simp
qed

section \<open>The titles a collector raises\<close>

lemma only_refl [simp]: "raises_only S m m"
  by (simp add: raises_only_def)

lemma only_trans:
  assumes "raises_only S m m'" and "raises_only S m' m''"
  shows "raises_only S m m''"
proof -
  have g: "grows m m'" "grows m' m''"
    using assms by (simp_all add: raises_only_def)
  have "raised m m'' = raised m m' @ raised m' m''"
    by (rule raised_trans[OF g])
  moreover have "grows m m''"
    by (rule grows_trans[OF g])
  ultimately show ?thesis
    using assms by (simp add: raises_only_def)
qed

lemma only_mono: "raises_only S m m' \<Longrightarrow> S \<subseteq> S' \<Longrightarrow> raises_only S' m m'"
  by (auto simp: raises_only_def)

lemma only_emits: "alert_calls es = [] \<Longrightarrow> raises_only S m (emits es m)"
  by (simp add: raises_only_def)

lemma only_send_alert: "t \<in> S \<Longrightarrow> raises_only S m (send_alert io t msg m)"
  by (simp add: raises_only_def)

lemma staysD: "stays S f \<Longrightarrow> f m = (r, m') \<Longrightarrow> raises_only S m m'"
  by (simp add: stays_def)

lemma stays_then_do:
  assumes f: "stays S f" and g: "\<And>x. stays S (g x)"
  shows "stays S (then_do f g)"
proof (unfold stays_def, intro allI impI)
  fix m r m'
  assume run: "then_do f g m = (r, m')"
  obtain r1 m1 where r1: "f m = (r1, m1)" by (cases "f m")
  show "raises_only S m m'"
  proof (cases r1)
    case (Inl e)
    with run r1 have "m' = m1" by (simp add: then_do_def)
    with staysD[OF f r1] show ?thesis by simp
  next
    case (Inr x)
    with run r1 have "g x m1 = (r, m')" by (simp add: then_do_def)
    from only_trans[OF staysD[OF f r1] staysD[OF g this]] show ?thesis .
  qed
qed

lemma stays_lift [simp]: "stays S (lift r)"
  by (simp add: stays_def lift_def)

lemma stays_pure [simp]: "stays S (pure x)"
  by (simp add: stays_def pure_def)

lemma stays_check_threshold: "t \<in> S \<Longrightarrow> stays S (check_threshold x k io t msg)"
  by (auto simp: stays_def check_threshold_def only_send_alert split: sum.splits)

lemma stays_system_body:
  "stays {''CPU Usage High'', ''Memory Usage High'', ''Disk Usage High''} (system_body env)"
  unfolding system_body_def split_def
  apply (intro stays_then_do)
  apply (simp_all add: stays_check_threshold)
  done

lemma only_check_system_resources:
  "check_system_resources env m = (s, m') \<Longrightarrow>
   raises_only {''CPU Usage High'', ''Memory Usage High'', ''Disk Usage High''} m m'"
proof -
  assume run: "check_system_resources env m = (s, m')"
  obtain r m1 where b: "system_body env m = (r, m1)" by (cases "system_body env m")
  have 1: "raises_only {''CPU Usage High'', ''Memory Usage High'', ''Disk Usage High''} m m1"
    by (rule staysD[OF stays_system_body b])
  show ?thesis
  proof (cases r)
    case (Inl e)
    with run b have "m' = emits [Log ERROR (''System resource check failed: '' @ exn_text e)] m1"
      by (simp add: check_system_resources_def)
    moreover have "raises_only {''CPU Usage High'', ''Memory Usage High'', ''Disk Usage High''} m1
        (emits [Log ERROR (''System resource check failed: '' @ exn_text e)] m1)"
      by (rule only_emits) simp
    ultimately show ?thesis using only_trans[OF 1] by simp
  next
    case (Inr x)
    with run b have "m' = m1" by (simp add: check_system_resources_def)
    with 1 show ?thesis by simp
  qed
qed

lemma stays_read_config [simp]: "stays S (\<lambda>m. lift (h m) m)"
  by (simp add: stays_def lift_def)

lemma test_generation_emits:
  "\<exists>es. snd (test_generation env m) = emits es m \<and> alert_calls es = []"
proof (cases "generation_request env (config m)")
  case (Inl e)
  then show ?thesis by (auto simp: test_generation_def)
next
  case (Inr code)
  show ?thesis
  proof (cases "code = 200")
    case True
    with Inr have "snd (test_generation env m) = emits [] m"
      by (simp add: test_generation_def emits_def)
    then show ?thesis by auto
  next
    case False
    with Inr show ?thesis by (auto simp: test_generation_def)
  qed
qed

lemma stays_test_generation:
  "stays S (\<lambda>m. case test_generation env m of (g, m') \<Rightarrow> (Inr g, m'))"
proof (unfold stays_def, intro allI impI)
  fix m r m'
  assume "(case test_generation env m of (g, m') \<Rightarrow> (Inr g, m')) = (r, m')"
  then have "m' = snd (test_generation env m)" by (auto split: prod.splits)
  with test_generation_emits[of env m] show "raises_only S m m'"
    by (auto intro: only_emits)
qed

lemma stays_generation_threshold:
  "''Generation Time High'' \<in> S \<Longrightarrow> stays S (generation_threshold env g)"
  by (cases g) (simp_all add: generation_threshold_def stays_check_threshold)

lemma stays_api_body:
  "stays {''API Response Time High'', ''Generation Time High''} (api_body env)"
  unfolding api_body_def
  apply (intro stays_then_do)
  apply (simp_all add: stays_check_threshold stays_generation_threshold stays_test_generation)
  done

lemma only_check_api_health:
  "check_api_health env m = (s, m') \<Longrightarrow>
   raises_only {''API Response Time High'', ''Generation Time High''} m m'"
proof -
  assume run: "check_api_health env m = (s, m')"
  obtain r m1 where b: "api_body env m = (r, m1)" by (cases "api_body env m")
  have 1: "raises_only {''API Response Time High'', ''Generation Time High''} m m1"
    by (rule staysD[OF stays_api_body b])
  show ?thesis
  proof (cases r)
    case (Inl e)
    with run b have "m' = emits [Log ERROR (''API health check failed: '' @ exn_text e)] m1"
      by (simp add: check_api_health_def)
    moreover have "raises_only {''API Response Time High'', ''Generation Time High''} m1
        (emits [Log ERROR (''API health check failed: '' @ exn_text e)] m1)"
      by (rule only_emits) simp
    ultimately show ?thesis using only_trans[OF 1] by simp
  next
    case (Inr x)
    with run b have "m' = m1" by (simp add: check_api_health_def)
    with 1 show ?thesis by simp
  qed
qed

lemma only_check_vllm_processes:
  "check_vllm_processes env m = (s, m') \<Longrightarrow> raises_only S m m'"
  by (auto simp: check_vllm_processes_def split: sum.splits intro: only_emits)

lemma save_metrics_events:
  "save_metrics env r m = (res, m') \<Longrightarrow> \<exists>es. events m' = events m @ es \<and> alert_calls es = []"
  by (auto simp: save_metrics_def append_record_def emits_def
           split: sum.splits cfg_value.splits option.splits)

lemma check_gpu_status_unavailable:
  "\<not> nvidia_available m \<or> gpu_count m = 0 \<Longrightarrow>
   check_gpu_status env m = (GpuUnavailable ''NVIDIA monitoring not available'', m)"
  by (auto simp: check_gpu_status_def)

lemma setup_nvidia_count:
  "\<not> nvidia_available m0 \<or> isl init_r \<Longrightarrow>
   gpu_count (setup_nvidia init_r m0) = 0 \<and> nvidia_available (setup_nvidia init_r m0) = nvidia_available m0"
  by (auto simp: setup_nvidia_def emits_def isl_def split: sum.splits)

lemma only_collect_no_gpu:
  assumes off: "\<not> nvidia_available m \<or> gpu_count m = 0"
    and run: "collect env m = (r, m')"
  shows "raises_only host_titles m m' \<and> m_gpu_status r = GpuUnavailable ''NVIDIA monitoring not available''"
proof -
  obtain api m1 where a: "check_api_health (api_world env) m = (api, m1)"
    by (cases "check_api_health (api_world env) m")
  obtain sys m3 where s: "check_system_resources (sys_world env) m1 = (sys, m3)"
    by (cases "check_system_resources (sys_world env) m1")
  obtain procs m4 where p: "check_vllm_processes (proc_world env) m3 = (procs, m4)"
    by (cases "check_vllm_processes (proc_world env) m3")
  have 1: "raises_only host_titles m m1"
    by (rule only_mono[OF only_check_api_health[OF a]]) (simp add: host_titles_def)
  then have off1: "\<not> nvidia_available m1 \<or> gpu_count m1 = 0"
    using off by (auto simp: raises_only_def grows_def)
  have g: "check_gpu_status (gpu_world env) m1 = (GpuUnavailable ''NVIDIA monitoring not available'', m1)"
    by (rule check_gpu_status_unavailable[OF off1])
  have 3: "raises_only host_titles m1 m3"
    by (rule only_mono[OF only_check_system_resources[OF s]]) (simp add: host_titles_def)
  have 4: "raises_only host_titles m3 m4"
    by (rule only_check_vllm_processes[OF p])
  from run a g s p have "m' = m4" "m_gpu_status r = GpuUnavailable ''NVIDIA monitoring not available''"
    by (auto simp: collect_def)
  with only_trans[OF only_trans[OF 1 3] 4] show ?thesis by simp
qed

lemma titles_run_no_gpu:
  assumes off: "\<not> nvidia_available m \<or> gpu_count m = 0"
    and run: "run_health_check env m = (res, m')"
  shows "fst ` set (raised m m') \<subseteq> host_titles"
proof -
  define ma where "ma = emits [Log INFO ''Starting health check cycle''] m"
  obtain r m4 where c: "collect env ma = (r, m4)" by (cases "collect env ma")
  obtain sr m5 where s: "save_metrics (save_world env) r m4 = (sr, m5)"
    by (cases "save_metrics (save_world env) r m4")
  have offa: "\<not> nvidia_available ma \<or> gpu_count ma = 0"
    using off by (simp add: ma_def emits_def)
  have 1: "raises_only host_titles ma m4"
    using only_collect_no_gpu[OF offa c] by simp
  then obtain xs where xs: "events m4 = events ma @ xs"
    unfolding raises_only_def grows_def by (metis append_take_drop_id)
  with 1 have t: "fst ` set (alert_calls xs) \<subseteq> host_titles"
    by (simp add: raises_only_def raised_def new_events_def)
  from save_metrics_events[OF s] obtain es where es: "events m5 = events m4 @ es" "alert_calls es = []"
    by blast
  have "\<exists>fin. events m' = events m5 @ fin \<and> alert_calls fin = []"
  proof (cases sr)
    case (Inl e)
    with run c s have "m' = m5" by (simp add: run_health_check_def ma_def)
    then show ?thesis by simp
  next
    case (Inr u)
    with run c s obtain line where "m' = emits [Log INFO line] m5"
      by (auto simp: run_health_check_def ma_def)
    then show ?thesis by (simp add: emits_def)
  qed
  then obtain fin where fin: "events m' = events m5 @ fin" "alert_calls fin = []" by blast
  have "raised m m' = alert_calls xs"
    by (simp add: raised_def new_events_def fin es xs ma_def emits_def)
  with t show ?thesis by simp
qed

section \<open>GPU telemetry unavailable\<close>

text \<open>
  C8. GPU telemetry is unavailable when the library is absent or \<^verbatim>\<open>setup_nvidia\<close> failed
  to initialise it. Then, at start-up and in every later state of the run, the GPU probe
  returns the snapshot \<^verbatim>\<open>{'available': False, ...}\<close> and does nothing else; a failed
  snapshot is another dict, with \<^verbatim>\<open>'available'\<close> true; and a whole health-check cycle
  raises no alert with a GPU title.
\<close>

theorem gpu_unavailable:
  assumes "\<not> nvidia_available m0 \<or> isl init_r"
    and "grows (setup_nvidia init_r m0) m"
  shows "check_gpu_status genv m = (GpuUnavailable ''NVIDIA monitoring not available'', m)
       \<and> \<not> available (fst (check_gpu_status genv m))
       \<and> (\<forall>msg. available (GpuError msg))
       \<and> (\<forall>res m'. run_health_check env m = (res, m') \<longrightarrow>
             ''GPU Memory High'' \<notin> fst ` set (raised m m')
           \<and> ''GPU Temperature High'' \<notin> fst ` set (raised m m'))"
proof -
  have off: "\<not> nvidia_available m \<or> gpu_count m = 0"
    using setup_nvidia_count[OF assms(1)] assms(2) by (auto simp: grows_def)
  have 1: "check_gpu_status genv m = (GpuUnavailable ''NVIDIA monitoring not available'', m)"
    by (rule check_gpu_status_unavailable[OF off])
  have 2: "''GPU Memory High'' \<notin> fst ` set (raised m m')
           \<and> ''GPU Temperature High'' \<notin> fst ` set (raised m m')"
    if "run_health_check env m = (res, m')" for res m'
  proof -
    from titles_run_no_gpu[OF off that] have "fst ` set (raised m m') \<subseteq> host_titles" .
    moreover have "''GPU Memory High'' \<notin> host_titles" "''GPU Temperature High'' \<notin> host_titles"
      by (simp_all add: host_titles_def)
    ultimately show ?thesis by blast
  qed
  show ?thesis using 1 2 by simp
qed

theorem gpu_unavailable_witness:
  "isl (Inl (Exn NVMLError ''Driver Not Loaded'') :: exn + nat)
   \<and> grows (setup_nvidia (Inl (Exn NVMLError ''Driver Not Loaded'')) (gpu_monitor default_config 0))
        (setup_nvidia (Inl (Exn NVMLError ''Driver Not Loaded'')) (gpu_monitor default_config 0))
   \<and> fst (check_gpu_status lost_second_gpu
        (setup_nvidia (Inl (Exn NVMLError ''Driver Not Loaded'')) (gpu_monitor default_config 0)))
       = GpuUnavailable ''NVIDIA monitoring not available''
   \<and> ''GPU Temperature High'' \<notin> fst ` set (raised
        (setup_nvidia (Inl (Exn NVMLError ''Driver Not Loaded'')) (gpu_monitor default_config 0))
        (snd (run_health_check down_cycle
           (setup_nvidia (Inl (Exn NVMLError ''Driver Not Loaded'')) (gpu_monitor default_config 0)))))"
proof -
  have h: "\<not> nvidia_available (gpu_monitor default_config 0)
           \<or> isl (Inl (Exn NVMLError ''Driver Not Loaded'') :: exn + nat)"
    by simp
  have g: "grows (setup_nvidia (Inl (Exn NVMLError ''Driver Not Loaded'')) (gpu_monitor default_config 0))
        (setup_nvidia (Inl (Exn NVMLError ''Driver Not Loaded'')) (gpu_monitor default_config 0))"
    by simp
  note t = gpu_unavailable[OF h g, of lost_second_gpu down_cycle]
  from t have a: "check_gpu_status lost_second_gpu
        (setup_nvidia (Inl (Exn NVMLError ''Driver Not Loaded'')) (gpu_monitor default_config 0))
      = (GpuUnavailable ''NVIDIA monitoring not available'',
         setup_nvidia (Inl (Exn NVMLError ''Driver Not Loaded'')) (gpu_monitor default_config 0))"
    by (rule conjunct1)
  from t have b: "\<forall>res m'. run_health_check down_cycle
        (setup_nvidia (Inl (Exn NVMLError ''Driver Not Loaded'')) (gpu_monitor default_config 0)) = (res, m') \<longrightarrow>
             ''GPU Memory High'' \<notin> fst ` set (raised
               (setup_nvidia (Inl (Exn NVMLError ''Driver Not Loaded'')) (gpu_monitor default_config 0)) m')
           \<and> ''GPU Temperature High'' \<notin> fst ` set (raised
               (setup_nvidia (Inl (Exn NVMLError ''Driver Not Loaded'')) (gpu_monitor default_config 0)) m')"
    by blast
  have c: "''GPU Temperature High'' \<notin> fst ` set (raised
        (setup_nvidia (Inl (Exn NVMLError ''Driver Not Loaded'')) (gpu_monitor default_config 0))
        (snd (run_health_check down_cycle
           (setup_nvidia (Inl (Exn NVMLError ''Driver Not Loaded'')) (gpu_monitor default_config 0)))))"
    using b[rule_format, OF surjective_pairing] by (rule conjunct2)
  show ?thesis
    using g a c by simp
qed

end
